theory Spec2Isabelle
  imports Complex_Main
begin

section \<open>Bank-statement extraction and classification (backend/excel_processor.py)\<close>

text \<open>
  A shallow embedding of \<^verbatim>\<open>UAEBankExcelProcessor\<close>. Python strings are modelled as
  HOL strings over ASCII text: the character tests and case conversions below are the
  ones Python applies to code points below 128; characters above 127 are treated as
  caseless symbols that are neither white space, digits nor word characters.
\<close>

subsection \<open>Strings as Python uses them\<close>

definition is_space :: "char \<Rightarrow> bool" where
  \<comment> \<open>\<^verbatim>\<open>str.isspace\<close> and the class \<^verbatim>\<open>\s\<close>: TAB, LF, VT, FF, CR, FS, GS, RS, US, SPACE.\<close>
  "is_space c = (let n = (of_char c :: nat) in (9 \<le> n \<and> n \<le> 13) \<or> (28 \<le> n \<and> n \<le> 32))"

definition is_digit :: "char \<Rightarrow> bool" where
  "is_digit c = (let n = (of_char c :: nat) in 48 \<le> n \<and> n \<le> 57)"

definition is_upper :: "char \<Rightarrow> bool" where
  "is_upper c = (let n = (of_char c :: nat) in 65 \<le> n \<and> n \<le> 90)"

definition is_lower :: "char \<Rightarrow> bool" where
  "is_lower c = (let n = (of_char c :: nat) in 97 \<le> n \<and> n \<le> 122)"

definition is_alpha :: "char \<Rightarrow> bool" where
  "is_alpha c = (is_upper c \<or> is_lower c)"

definition is_word :: "char \<Rightarrow> bool" where
  \<comment> \<open>the class \<^verbatim>\<open>\w\<close>\<close>
  "is_word c = (is_alpha c \<or> is_digit c \<or> c = CHR ''_'')"

definition lower_char :: "char \<Rightarrow> char" where
  "lower_char c = (if is_upper c then char_of (of_char c + (32::nat)) else c)"

definition upper_char :: "char \<Rightarrow> char" where
  "upper_char c = (if is_lower c then char_of (of_char c - (32::nat)) else c)"

definition lower :: "string \<Rightarrow> string" where
  "lower s = map lower_char s"

definition upper :: "string \<Rightarrow> string" where
  "upper s = map upper_char s"

definition strip :: "string \<Rightarrow> string" where
  \<comment> \<open>\<^verbatim>\<open>str.strip()\<close>: leading and trailing white space removed\<close>
  "strip s = rev (dropWhile is_space (rev (dropWhile is_space s)))"

fun startswith :: "string \<Rightarrow> string \<Rightarrow> bool" where
  "startswith s [] = True"
| "startswith [] (p # ps) = False"
| "startswith (c # cs) (p # ps) = (c = p \<and> startswith cs ps)"

fun contains :: "string \<Rightarrow> string \<Rightarrow> bool" where
  \<comment> \<open>\<^verbatim>\<open>kw in s\<close>, written \<open>contains kw s\<close>\<close>
  "contains kw [] = (kw = [])"
| "contains kw (c # cs) = (startswith (c # cs) kw \<or> contains kw cs)"

definition any_in :: "string list \<Rightarrow> string \<Rightarrow> bool" where
  \<comment> \<open>\<^verbatim>\<open>any(kw in s for kw in kws)\<close>\<close>
  "any_in kws s = list_ex (\<lambda>kw. contains kw s) kws"

definition digit_char :: "nat \<Rightarrow> char" where
  "digit_char d = char_of (48 + d)"

fun str_nat :: "nat \<Rightarrow> string" where
  \<comment> \<open>\<^verbatim>\<open>str(n)\<close> of a non-negative integer\<close>
  "str_nat n = (if n < 10 then [digit_char n] else str_nat (n div 10) @ [digit_char (n mod 10)])"

declare str_nat.simps [simp del]

definition str_int :: "int \<Rightarrow> string" where
  "str_int i = (if i < 0 then CHR ''-'' # str_nat (nat (- i)) else str_nat (nat i))"

definition zfill :: "nat \<Rightarrow> string \<Rightarrow> string" where
  \<comment> \<open>\<^verbatim>\<open>s.zfill(w)\<close> on a string without a sign\<close>
  "zfill w s = replicate (w - length s) CHR ''0'' @ s"

subsection \<open>Cell values and worksheets\<close>

record datetime =
  year :: nat
  month :: nat
  day :: nat
  hour :: nat
  minute :: nat
  second :: nat
  microsecond :: nat

definition strftime_ymd :: "datetime \<Rightarrow> string" where
  \<comment> \<open>\<^verbatim>\<open>d.strftime('%Y-%m-%d')\<close>\<close>
  "strftime_ymd d =
     zfill 4 (str_nat (year d)) @ ''-'' @ zfill 2 (str_nat (month d)) @ ''-'' @ zfill 2 (str_nat (day d))"

definition str_datetime :: "datetime \<Rightarrow> string" where
  \<comment> \<open>\<^verbatim>\<open>str(d)\<close> of a naive datetime: the ISO form with a space separator\<close>
  "str_datetime d =
     strftime_ymd d @ '' '' @ zfill 2 (str_nat (hour d)) @ '':'' @ zfill 2 (str_nat (minute d))
       @ '':'' @ zfill 2 (str_nat (second d))
       @ (if microsecond d = 0 then [] else ''.'' @ zfill 6 (str_nat (microsecond d)))"

text \<open>
  A cell value as openpyxl hands it over. The processor looks at a value in three ways
  only: its truth value, its \<^verbatim>\<open>str()\<close>, and whether it is a \<^verbatim>\<open>datetime\<close>. \<open>COther t s\<close>
  stands for any other value (a float, a bool, a time) with truth value \<open>t\<close> and
  \<^verbatim>\<open>str()\<close> image \<open>s\<close>.
\<close>

datatype cell = CNone | CStr string | CInt int | CDateTime datetime | COther bool string

fun truthy :: "cell \<Rightarrow> bool" where
  "truthy CNone = False"
| "truthy (CStr s) = (s \<noteq> [])"
| "truthy (CInt i) = (i \<noteq> 0)"
| "truthy (CDateTime d) = True"
| "truthy (COther t s) = t"

fun py_str :: "cell \<Rightarrow> string" where
  "py_str CNone = ''None''"
| "py_str (CStr s) = s"
| "py_str (CInt i) = str_int i"
| "py_str (CDateTime d) = str_datetime d"
| "py_str (COther t s) = s"

definition str_or :: "cell \<Rightarrow> string \<Rightarrow> string" where
  \<comment> \<open>\<^verbatim>\<open>str(value or dflt)\<close>\<close>
  "str_or v dflt = (if truthy v then py_str v else dflt)"

record worksheet =
  max_row :: nat
  max_column :: nat
  cell_value :: "nat \<Rightarrow> nat \<Rightarrow> cell"

subsection \<open>Header Locator: \<^verbatim>\<open>find_data_headers\<close>\<close>

definition header_keywords :: "string list" where
  "header_keywords = [''date'', ''amount'', ''description'', ''particular'', ''narration'',
     ''debit'', ''credit'', ''balance'', ''type'', ''reference'']"

datatype map_key = header_row | date_col | description_col | type_col | reference_col
  | debit_col | credit_col | amount_col

type_synonym column_map = "map_key \<rightharpoonup> nat"

definition header_text :: "worksheet \<Rightarrow> nat \<Rightarrow> nat \<Rightarrow> string" where
  \<comment> \<open>\<^verbatim>\<open>str(worksheet.cell(row, col).value or '').lower().strip()\<close>\<close>
  "header_text ws row col = strip (lower (str_or (cell_value ws row col) []))"

definition is_header_hit :: "string \<Rightarrow> bool" where
  "is_header_hit v = (v \<noteq> [] \<and> any_in header_keywords v)"

definition column_type :: "string \<Rightarrow> map_key option" where
  \<comment> \<open>the \<^verbatim>\<open>if/elif\<close> chain under "Detect column types"\<close>
  "column_type v =
     (if contains ''date'' v then Some date_col
      else if contains ''description'' v \<or> contains ''particular'' v \<or> contains ''narration'' v
        then Some description_col
      else if contains ''type'' v then Some type_col
      else if contains ''reference'' v \<or> contains ''ref'' v then Some reference_col
      else if contains ''debit'' v then Some debit_col
      else if contains ''credit'' v then Some credit_col
      else if contains ''amount'' v then Some amount_col
      else None)"

definition scan_header_cell :: "worksheet \<Rightarrow> nat \<Rightarrow> nat \<Rightarrow> column_map \<times> nat \<Rightarrow> column_map \<times> nat" where
  \<comment> \<open>one iteration of the inner loop over \<open>col\<close>; the state is \<open>(row_data, header_count)\<close>\<close>
  "scan_header_cell ws row col st =
     (let v = header_text ws row col in
      if is_header_hit v then
        (case column_type v of
           Some k \<Rightarrow> ((fst st)(k \<mapsto> col), snd st + 1)
         | None \<Rightarrow> (fst st, snd st + 1))
      else st)"

definition header_columns :: "worksheet \<Rightarrow> nat list" where
  \<comment> \<open>\<^verbatim>\<open>range(1, min(worksheet.max_column + 1, 10))\<close>\<close>
  "header_columns ws = [1 ..< min (max_column ws + 1) 10]"

definition header_rows :: "worksheet \<Rightarrow> nat list" where
  \<comment> \<open>\<^verbatim>\<open>range(1, min(20, worksheet.max_row + 1))\<close>\<close>
  "header_rows ws = [1 ..< min 20 (max_row ws + 1)]"

definition scan_header_row :: "worksheet \<Rightarrow> nat \<Rightarrow> column_map \<times> nat" where
  "scan_header_row ws row = fold (scan_header_cell ws row) (header_columns ws) (Map.empty, 0)"

fun find_header_in :: "worksheet \<Rightarrow> nat list \<Rightarrow> column_map option" where
  "find_header_in ws [] = None"
| "find_header_in ws (row # rows) =
     (let (row_data, header_count) = scan_header_row ws row in
      if header_count \<ge> 3 then Some (row_data(header_row \<mapsto> row))
      else find_header_in ws rows)"

definition default_column_map :: column_map where
  "default_column_map = [header_row \<mapsto> 1, date_col \<mapsto> 1, description_col \<mapsto> 2,
     debit_col \<mapsto> 4, credit_col \<mapsto> 5]"

definition find_data_headers :: "worksheet \<Rightarrow> column_map" where
  "find_data_headers ws =
     (case find_header_in ws (header_rows ws) of Some row_data \<Rightarrow> row_data
      | None \<Rightarrow> default_column_map)"

text \<open>The columns of a row that the locator assigns to a role, and the last of them.\<close>

definition role_columns :: "worksheet \<Rightarrow> nat \<Rightarrow> map_key \<Rightarrow> nat list" where
  "role_columns ws row k =
     filter (\<lambda>col. is_header_hit (header_text ws row col)
                  \<and> column_type (header_text ws row col) = Some k) (header_columns ws)"

definition header_hits :: "worksheet \<Rightarrow> nat \<Rightarrow> nat" where
  "header_hits ws row =
     length (filter (\<lambda>col. is_header_hit (header_text ws row col)) (header_columns ws))"

definition last_option :: "'a list \<Rightarrow> 'a option" where
  "last_option xs = (if xs = [] then None else Some (last xs))"

definition sheet_of_rows :: "cell list list \<Rightarrow> worksheet" where
  \<comment> \<open>a worksheet given by its rows; cells outside the rows are empty\<close>
  "sheet_of_rows rows =
     \<lparr> max_row = length rows,
       max_column = foldr (\<lambda>r m. max (length r) m) rows 0,
       cell_value = (\<lambda>r c. if 1 \<le> r \<and> r \<le> length rows \<and> 1 \<le> c \<and> c \<le> length (rows ! (r - 1))
                             then rows ! (r - 1) ! (c - 1) else CNone) \<rparr>"

definition two_date_sheet :: worksheet where
  "two_date_sheet = sheet_of_rows
     [[CStr ''Date'', CStr ''Value Date'', CStr ''Description'', CStr ''Amount'']]"

definition titled_sheet :: worksheet where
  "titled_sheet = sheet_of_rows
     [[CStr ''Account Statement''],
      [CStr ''Txn Date'', CStr ''Narration'', CStr ''Debit'', CStr ''Credit'', CStr ''Posting Date'']]"

subsection \<open>Regular expressions as Python's \<^verbatim>\<open>re\<close> module matches them\<close>

text \<open>
  The patterns of the source are kept as data and run by one backtracking matcher. A
  match state is the text already consumed (most recent first), the text still ahead,
  and the groups captured so far. \<open>rmatch\<close> lists every way a pattern can match at a
  state, in the order in which the backtracking matcher tries them, so the first element
  is the match that \<^verbatim>\<open>re.match\<close> reports. Bounded and unbounded repetition is over a
  single character class, which is all the source uses; groups whose text the source
  never reads are written without \<open>Group\<close>.
\<close>

datatype cclass = Lit char | Range char char | Digit | Space | Word | AnyChar | OneOf "cclass list"

fun cmatch :: "cclass \<Rightarrow> char \<Rightarrow> bool" where
  "cmatch (Lit a) c = (c = a)"
| "cmatch (Range a b) c = ((of_char a :: nat) \<le> of_char c \<and> (of_char c :: nat) \<le> of_char b)"
| "cmatch Digit c = is_digit c"
| "cmatch Space c = is_space c"
| "cmatch Word c = is_word c"
| "cmatch AnyChar c = (c \<noteq> CHR 0x0A)"
| "cmatch (OneOf ks) c = list_ex (\<lambda>k. cmatch k c) ks"

definition cm :: "bool \<Rightarrow> cclass \<Rightarrow> char \<Rightarrow> bool" where
  \<comment> \<open>\<open>ic\<close> is the flag \<^verbatim>\<open>re.IGNORECASE\<close>\<close>
  "cm ic k c = (cmatch k c \<or> (ic \<and> (cmatch k (lower_char c) \<or> cmatch k (upper_char c))))"

datatype regex =
    Chr cclass
  | Str string
  | Rep cclass nat "nat option" bool
  | Then regex regex
  | Or regex regex
  | Opt regex
  | Group nat regex
  | Bos
  | Eos
  | WordB

type_synonym mstate = "string \<times> string \<times> (nat \<rightharpoonup> string)"

fun str_match :: "bool \<Rightarrow> string \<Rightarrow> string \<Rightarrow> string \<Rightarrow> (string \<times> string) option" where
  "str_match ic [] b s = Some (b, s)"
| "str_match ic (a # as) b [] = None"
| "str_match ic (a # as) b (c # cs) = (if cm ic (Lit a) c then str_match ic as (c # b) cs else None)"

definition rep_counts :: "bool \<Rightarrow> cclass \<Rightarrow> nat \<Rightarrow> nat option \<Rightarrow> bool \<Rightarrow> string \<Rightarrow> nat list" where
  \<comment> \<open>how many characters \<^verbatim>\<open>k{lo,hi}\<close> may take, in the order tried: a greedy repetition
      tries the longest run first, a lazy one (\<^verbatim>\<open>{lo,hi}?\<close>) the shortest\<close>
  "rep_counts ic k lo hi greedy s =
     (let run = length (takeWhile (cm ic k) s);
          top = (case hi of None \<Rightarrow> run | Some h \<Rightarrow> min h run);
          counts = [lo ..< Suc top]
      in if greedy then rev counts else counts)"

definition at_word_boundary :: "string \<Rightarrow> string \<Rightarrow> bool" where
  "at_word_boundary b s =
     ((case b of [] \<Rightarrow> False | c # _ \<Rightarrow> is_word c) \<noteq> (case s of [] \<Rightarrow> False | c # _ \<Rightarrow> is_word c))"

fun rmatch :: "bool \<Rightarrow> regex \<Rightarrow> mstate \<Rightarrow> mstate list" where
  "rmatch ic (Chr k) (b, s, g) =
     (case s of [] \<Rightarrow> [] | c # cs \<Rightarrow> if cm ic k c then [(c # b, cs, g)] else [])"
| "rmatch ic (Str lit) (b, s, g) =
     (case str_match ic lit b s of None \<Rightarrow> [] | Some (b', s') \<Rightarrow> [(b', s', g)])"
| "rmatch ic (Rep k lo hi greedy) (b, s, g) =
     map (\<lambda>n. (rev (take n s) @ b, drop n s, g)) (rep_counts ic k lo hi greedy s)"
| "rmatch ic (Then r1 r2) st = concat (map (rmatch ic r2) (rmatch ic r1 st))"
| "rmatch ic (Or r1 r2) st = rmatch ic r1 st @ rmatch ic r2 st"
| "rmatch ic (Opt r) st = rmatch ic r st @ [st]"
| "rmatch ic (Group n r) (b, s, g) =
     map (\<lambda>(b', s', g'). (b', s', g'(n \<mapsto> rev (take (length b' - length b) b'))))
       (rmatch ic r (b, s, g))"
| "rmatch ic Bos (b, s, g) = (if b = [] then [(b, s, g)] else [])"
| "rmatch ic Eos (b, s, g) = (if s = [] \<or> s = [CHR 0x0A] then [(b, s, g)] else [])"
| "rmatch ic WordB (b, s, g) = (if at_word_boundary b s then [(b, s, g)] else [])"

fun seq :: "regex list \<Rightarrow> regex" where
  "seq [] = Str []"
| "seq [r] = r"
| "seq (r # rs) = Then r (seq rs)"

definition first_match :: "bool \<Rightarrow> regex \<Rightarrow> string \<Rightarrow> string \<Rightarrow> (nat \<times> (nat \<rightharpoonup> string)) option" where
  \<comment> \<open>the match found at one position: its length and its groups\<close>
  "first_match ic r b s =
     (case rmatch ic r (b, s, Map.empty) of [] \<Rightarrow> None
      | (b', s', g) # _ \<Rightarrow> Some (length b' - length b, g))"

definition re_match :: "bool \<Rightarrow> regex \<Rightarrow> string \<Rightarrow> (nat \<rightharpoonup> string) option" where
  \<comment> \<open>\<^verbatim>\<open>re.match(r, s)\<close>: a match at the start of \<open>s\<close>, given by its groups\<close>
  "re_match ic r s = map_option snd (first_match ic r [] s)"

fun sub_scan :: "bool \<Rightarrow> regex \<Rightarrow> ((nat \<rightharpoonup> string) \<Rightarrow> string) \<Rightarrow> nat \<Rightarrow> string \<Rightarrow> string \<Rightarrow> string" where
  \<comment> \<open>the left-to-right scan of \<^verbatim>\<open>re.sub\<close>; \<open>skip\<close> counts the characters of the last
      match that are still to be passed over\<close>
  "sub_scan ic r repl skip b [] =
     (if skip = 0 then (case first_match ic r b [] of None \<Rightarrow> [] | Some (n, g) \<Rightarrow> repl g) else [])"
| "sub_scan ic r repl skip b (c # cs) =
     (if skip > 0 then sub_scan ic r repl (skip - 1) (c # b) cs
      else case first_match ic r b (c # cs) of
             None \<Rightarrow> c # sub_scan ic r repl 0 (c # b) cs
           | Some (n, g) \<Rightarrow>
               if n = 0 then repl g @ c # sub_scan ic r repl 0 (c # b) cs
               else repl g @ sub_scan ic r repl (n - 1) (c # b) cs)"

definition re_sub :: "bool \<Rightarrow> regex \<Rightarrow> ((nat \<rightharpoonup> string) \<Rightarrow> string) \<Rightarrow> string \<Rightarrow> string" where
  \<comment> \<open>\<^verbatim>\<open>re.sub(r, repl, s)\<close>\<close>
  "re_sub ic r repl s = sub_scan ic r repl 0 [] s"

definition delete_matches :: "bool \<Rightarrow> regex \<Rightarrow> string \<Rightarrow> string" where
  \<comment> \<open>\<^verbatim>\<open>re.sub(r, '', s)\<close>\<close>
  "delete_matches ic r s = re_sub ic r (\<lambda>g. []) s"

definition group :: "(nat \<rightharpoonup> string) \<Rightarrow> nat \<Rightarrow> string" where
  \<comment> \<open>\<^verbatim>\<open>m.group(n)\<close> of a group that took part in the match\<close>
  "group g n = (case g n of Some x \<Rightarrow> x | None \<Rightarrow> [])"

definition sp1 :: regex where "sp1 = Rep Space 1 None True"
definition sp0 :: regex where "sp0 = Rep Space 0 None True"
definition digits :: "nat \<Rightarrow> nat option \<Rightarrow> regex" where "digits lo hi = Rep Digit lo hi True"
definition AZ :: cclass where "AZ = Range CHR ''A'' CHR ''Z''"
definition az :: cclass where "az = Range CHR ''a'' CHR ''z''"
definition d09 :: cclass where "d09 = Range CHR ''0'' CHR ''9''"

subsection \<open>Merchant Normalizer: \<^verbatim>\<open>extract_merchant_name\<close>\<close>

definition prefix_patterns :: "regex list" where
  "prefix_patterns =
    [seq [Bos, Str ''CHECKCARD'', sp1, digits 4 (Some 4), sp1],
     seq [Bos, Str ''MOBILE'', sp1, Str ''PURCHASE'', sp1, digits 4 (Some 4), sp1],
     seq [Bos, Str ''POS'', sp1, Str ''PURCHASE'', sp1, digits 4 (Some 4), sp1],
     seq [Bos, Str ''RECURRING'', sp1, Str ''PURCHASE'', sp1, digits 4 (Some 4), sp1],
     seq [Bos, Str ''ONLINE'', sp1, Str ''PURCHASE'', sp1, digits 4 (Some 4), sp1],
     seq [Bos, Str ''DEBIT'', sp1, Str ''CARD'', sp1, Str ''PURCHASE'', sp1, digits 4 (Some 4), sp1],
     seq [Bos, Str ''DEBIT'', sp1, Str ''PURCHASE'', sp1, digits 4 (Some 4), sp1],
     seq [Bos, Str ''ACH'', sp1, Str ''DEBIT'', sp1],
     seq [Bos, Str ''ACH'', sp1, Str ''CREDIT'', sp1],
     seq [Bos, Str ''WIRE'', sp1, Str ''TRANSFER'', sp1, Or (Str ''TO'') (Str ''FROM''), sp1],
     seq [Bos, Str ''WIRE'', sp1, Or (Str ''TO'') (Str ''FROM''), sp1],
     seq [Bos, Str ''ZELLE'', sp1, Or (Str ''TO'') (Or (Str ''FROM'') (Str ''PAYMENT'')), sp1],
     seq [Bos, Str ''VENMO'', sp1, Str ''PAYMENT'', sp1],
     seq [Bos, Str ''PAYPAL'', sp1, Opt (seq [Str ''TRANSFER'', sp1])],
     seq [Bos, Str ''DIRECT'', sp1, Or (Str ''DEBIT'') (Str ''DEPOSIT''), sp1],
     seq [Bos, Str ''ATM'', sp1, Str ''WITHDRAWAL'', sp1],
     seq [Bos, Str ''CHECKCARD'', sp1],
     seq [Bos, Str ''MOBILE'', sp1, Str ''PURCHASE'', sp1],
     seq [Bos, Str ''POS'', sp1, Str ''PURCHASE'', sp1]]"

definition strip_prefixes :: "string \<Rightarrow> string" where
  \<comment> \<open>\<^verbatim>\<open>for pattern in prefix_patterns: s = re.sub(pattern, '', s, flags=re.IGNORECASE).strip()\<close>\<close>
  "strip_prefixes s = fold (\<lambda>p s. strip (delete_matches True p s)) prefix_patterns s"

definition sq_pattern :: regex where
  \<comment> \<open>\<^verbatim>\<open>^SQ\s*\*\s*(.+)\<close>\<close>
  "sq_pattern = seq [Bos, Str ''SQ'', sp0, Chr (Lit CHR ''*''), sp0, Group 1 (Rep AnyChar 1 None True)]"

definition zip_pattern :: regex where
  \<comment> \<open>\<^verbatim>\<open>\s+[A-Z]{2}\s+\d{5}(-\d{4})?$\<close>\<close>
  "zip_pattern = seq [sp1, Rep AZ 2 (Some 2) True, sp1, digits 5 (Some 5),
     Opt (seq [Chr (Lit CHR ''-''), digits 4 (Some 4)]), Eos]"

definition state_pattern :: regex where
  \<comment> \<open>\<^verbatim>\<open>\s+[A-Z]{2}$\<close>\<close>
  "state_pattern = seq [sp1, Rep AZ 2 (Some 2) True, Eos]"

definition long_number_pattern :: regex where
  \<comment> \<open>\<^verbatim>\<open>\s+\d{8,}\<close>\<close>
  "long_number_pattern = seq [sp1, digits 8 None]"

definition hex_code_pattern :: regex where
  \<comment> \<open>\<^verbatim>\<open>\b[0-9A-Fa-f]{10,}\b\<close>\<close>
  "hex_code_pattern = seq [WordB,
     Rep (OneOf [d09, Range CHR ''A'' CHR ''F'', Range CHR ''a'' CHR ''f'']) 10 None True, WordB]"

definition recurring_pattern :: regex where
  \<comment> \<open>\<^verbatim>\<open>\s+RECURRING(\s+CHARGE)?$\<close>\<close>
  "recurring_pattern = seq [sp1, Str ''RECURRING'', Opt (seq [sp1, Str ''CHARGE'']), Eos]"

definition store_number_pattern :: regex where
  \<comment> \<open>\<^verbatim>\<open>\s+#\d+.*$\<close>\<close>
  "store_number_pattern = seq [sp1, Chr (Lit CHR ''#''), digits 1 None, Rep AnyChar 0 None True, Eos]"

definition junk_tail_pattern :: regex where
  \<comment> \<open>\<^verbatim>\<open>^([A-Za-z][A-Za-z0-9\s\.\&\'\-]{1,40}?)\s+\d+\s+[A-Z].*$\<close>\<close>
  "junk_tail_pattern = seq [Bos,
     Group 1 (seq [Chr (OneOf [AZ, az]),
       Rep (OneOf [AZ, az, d09, Space, Lit CHR ''.'', Lit CHR ''&'', Lit CHR 0x27, Lit CHR ''-''])
         1 (Some 40) False]),
     sp1, digits 1 None, sp1, Chr AZ, Rep AnyChar 0 None True, Eos]"

fun title_from :: "bool \<Rightarrow> string \<Rightarrow> string" where
  \<comment> \<open>\<^verbatim>\<open>str.title()\<close>; the flag says whether the previous character was a letter\<close>
  "title_from prev [] = []"
| "title_from prev (c # cs) =
     (if is_alpha c then (if prev then lower_char c else upper_char c) # title_from True cs
      else c # title_from False cs)"

definition title :: "string \<Rightarrow> string" where
  "title s = title_from False s"

definition strip_steps :: "string \<Rightarrow> string" where
  \<comment> \<open>steps 1 to 7 of \<^verbatim>\<open>extract_merchant_name\<close>, on the stripped description\<close>
  "strip_steps s0 =
     (let s = strip_prefixes s0;
          s = (case re_match True sq_pattern s of Some g \<Rightarrow> strip (group g 1) | None \<Rightarrow> s);
          s = strip (delete_matches False zip_pattern s);
          s = strip (delete_matches False state_pattern s);
          s = strip (delete_matches False long_number_pattern s);
          s = strip (delete_matches False hex_code_pattern s);
          s = strip (delete_matches True recurring_pattern s);
          s = strip (delete_matches False store_number_pattern s);
          s = strip (re_sub False junk_tail_pattern (\<lambda>g. group g 1) s)
      in s)"

definition extract_merchant_name :: "string \<Rightarrow> string" where
  "extract_merchant_name description =
     (let result = strip (title (strip_steps (strip description)))
      in if result \<noteq> [] then take 60 result else take 60 description)"

subsection \<open>Rule Classifier: \<^verbatim>\<open>_is_ibft_reference\<close> and \<^verbatim>\<open>categorize_transaction\<close>\<close>

definition internal_transfer_keywords :: "string list" where
  "internal_transfer_keywords =
     [''mobn transfer'', ''mobn'', ''internal transfer'', ''own account transfer'',
      ''self transfer'', ''ibft'', ''neft'', ''rtgs'', ''imps'', ''upi transfer'',
      ''between accounts'', ''acc transfer'', ''account transfer'', ''transfer from'',
      ''transfer to'', ''online transfer'', ''mobile transfer'',
      ''internet banking transfer'', ''e-transfer'', ''wire to self'',
      ''salary transfer own'', ''al ansari'', ''uae exchange transfer to self'']"

definition salary_income_keywords :: "string list" where
  "salary_income_keywords =
     [''salary'', ''payroll'', ''wages'', ''income'', ''direct deposit'', ''paycheck'',
      ''pay slip'', ''bonus'', ''commission'', ''stipend'', ''allowance'',
      ''reimbursement'', ''refund'', ''credit from'', ''deposit from'', ''payment from'',
      ''received from'', ''dividend'', ''interest credit'', ''profit share'']"

definition food_beverage_keywords :: "string list" where
  "food_beverage_keywords =
     [''carrefour'', ''lulu'', ''spinneys'', ''choithrams'', ''union coop'', ''waitrose'',
      ''restaurant'', ''cafe'', ''kfc'', ''mcdonald'', ''pizza'', ''subway'', ''dominos'',
      ''starbucks'', ''costa'', ''dunkin'', ''burger'', ''food'', ''dining'', ''eat'',
      ''grocery'', ''supermarket'', ''hypermarket'', ''bakery'', ''deli'', ''bistro'',
      ''catering'', ''takeaway'', ''delivery'', ''zomato'', ''talabat'', ''deliveroo'',
      ''doordash'', ''grubhub'', ''uber eats'', ''postmates'', ''chipotle'', ''panera'',
      ''whole foods'', ''trader joe'', ''safeway'', ''kroger'', ''donuts'', ''coffee'',
      ''espresso'', ''bacio di latte'', ''butchery'', ''zinque'', ''ralphs'',
      ''albertsons'', ''vons'', ''pavilions'', ''publix'', ''wegmans'', ''harris teeter'',
      ''noon food'', ''kcal'', ''just eat'', ''hunger station'', ''marsool'', ''mrsool'',
      ''jahez'', ''tikka'', ''shawarma'', ''manoushe'', ''falafel'', ''hummus'',
      ''baqala'', ''chaat'', ''karak'', ''cafetera'', ''moongoat'', ''dutch bros'',
      (''peet'' @ [CHR 0x27] @ ''s coffee''), ''peets coffee'', ''blue bottle'',
      ''instacart'', ''fresh direct'', ''imperfect foods'', ''misfit market'',
      ''chick-fil-a'', ''chickfila'', ''taco bell'', ''five guys'', ''shake shack'',
      ''in-n-out'', ''whataburger'', ''sonic drive'', ''dairy queen'', ''popeyes'',
      ''olive garden'', ''red lobster'', ''applebees'', ''chilis'', ''ihop'', ''dennys'',
      ''wingstop'', ''buffalo wild wings'', ''raising canes'', ''culvers'']"

definition transportation_keywords :: "string list" where
  "transportation_keywords =
     [''adnoc'', ''eppco'', ''enoc'', ''petrol'', ''fuel'', ''gas'', ''gasoline'',
      ''taxi'', ''uber'', ''careem'', ''metro'', ''bus'', ''rta'', ''parking'', ''salik'',
      ''toll'', ''car wash'', ''transport'', ''emirates'', ''etihad'', ''flydubai'',
      ''air arabia'', ''airline'', ''flight'', ''airport'', ''chevron'', ''shell'', ''bp'',
      ''76'', ''exxon'', ''mobil'', ''lyft'', ''parking services'', ''toll roads'',
      ''valet'', ''bolt'', ''indrive'', ''yango'', ''aramex'', ''dhl'', ''fedex'', ''ups'',
      ''courier'', ''shipping'', ''freight'']"

definition retail_shopping_keywords :: "string list" where
  "retail_shopping_keywords =
     [''mall'', ''centrepoint'', ''max'', ''home centre'', ''ikea'', ''ace'',
      ''sharaf dg'', ''jumbo'', ''electronics'', ''clothing'', ''fashion'', ''shop'',
      ''store'', ''retail'', ''amazon'', ''noon'', ''souq'', ''namshi'', ''h&m'', ''zara'',
      ''nike'', ''adidas'', ''apple store'', ''samsung'', ''virgin'', ''uniqlo'',
      ''target'', ''walmart'', ''costco'', ''best buy'', ''macy'', ''nordstrom'',
      ''kohls'', ''tj maxx'', ''ross'', ''marshalls'', ''shein'', ''bosta'']"

definition healthcare_keywords :: "string list" where
  "healthcare_keywords =
     [''hospital'', ''clinic'', ''pharmacy'', ''medical'', ''doctor'', ''health'',
      ''dental'', ''medicare'', ''aster'', ''nmc'', ''mediclinic'', ''life pharmacy'',
      ''boots'', ''aster pharmacy'', ''day today pharmacy'', ''seha'', ''dha'',
      ''nmc healthcare'', ''thumbay'', ''daman'', ''salon'', ''spa'', ''barbershop'',
      ''beauty'', ''cosmetics'', ''skincare'', ''haircut'', ''manicure'', ''pedicure'',
      ''massage'', ''gym'', ''fitness'', ''24hourfitness'', ''planet fitness'',
      ''la fitness'', ''crunch'', ''equinox'', ''flex fitness'', ''orangetheory'']"

definition utilities_keywords :: "string list" where
  "utilities_keywords =
     [''dewa'', ''addc'', ''sewa'', ''fewa'', ''etisalat'', ''du'', ''internet'',
      ''mobile'', ''telecom'', ''electricity'', ''water'', ''utility'', ''bill'', ''wifi'',
      ''broadband'', ''phone bill'', ''electric bill'']"

definition entertainment_keywords :: "string list" where
  "entertainment_keywords =
     [''cinema'', ''movie'', ''vox'', ''reel'', ''osn'', ''gaming'', ''entertainment'',
      ''park'', ''beach'', ''attraction'', ''ticket'', ''event'', ''youtube'', ''disney'',
      ''hulu'', ''shahid'', ''disneyland'', ''balloon museum'', ''sawdust festival'',
      ''museum'', ''amusement'']"

definition technology_keywords :: "string list" where
  "technology_keywords =
     [''netflix'', ''spotify'', ''youtube premium'', ''amazon prime'', ''disney+'',
      ''adobe'', ''microsoft'', ''google'', ''icloud'', ''dropbox'', ''zoom'',
      ''subscription'', ''monthly'', ''annual'', ''recurring'', ''saas'', ''software'',
      ''app store'', ''play store'', ''itunes'', ''office 365'', ''hbo'', ''peacock'',
      ''paramount+'', ''apple tv'', ''apple one'', ''slack'', ''github'', ''figma'',
      ''notion'', ''canva'', ''grammarly'', ''dashlane'', ''1password'', ''nordvpn'',
      ''expressvpn'', ''duolingo'', ''headspace'', ''calm'', ''audible'',
      ''kindle unlimited'']"

definition finance_banking_keywords :: "string list" where
  "finance_banking_keywords =
     [''atm'', ''cash withdrawal'', ''withdrawal'', ''atm withdrawal'', ''cash advance'',
      ''atm fee'', ''withdrawal fee'', ''bank fee'', ''service charge'',
      ''maintenance fee'', ''overdraft'', ''annual fee'', ''interest charge'',
      ''finance charge'', ''late payment fee'', ''wire transfer'', ''remittance'',
      ''foreign exchange'', ''forex'', ''currency exchange'', ''uae exchange'',
      ''al ansari exchange'', ''lulu exchange'', ''wall street exchange'', ''zelle'',
      ''venmo'', ''paypal'', ''western union'', ''moneygram'', ''loan repayment'',
      ''emi payment'', ''credit card payment'', ''insurance premium'', ''ach debit'',
      ''ach credit'', ''direct debit'', ''direct deposit'', ''pos purchase'',
      ''checkcard'', ''wire to'', ''wire from'', ''cash app'', ''apple pay'',
      ''google pay'', ''samsung pay'', ''tabby'', ''spotii'', ''cashew'', ''tamara'']"

definition categories :: "(string \<times> string list) list" where
  \<comment> \<open>the dictionary \<^verbatim>\<open>self.categories\<close>, in insertion order\<close>
  "categories =
     [(''Internal Transfer'', internal_transfer_keywords),
      (''Salary & Income'', salary_income_keywords),
      (''Food & Beverage'', food_beverage_keywords),
      (''Transportation & Logistics'', transportation_keywords),
      (''Retail & Shopping'', retail_shopping_keywords),
      (''Healthcare'', healthcare_keywords),
      (''Utilities'', utilities_keywords),
      (''Entertainment & Media'', entertainment_keywords),
      (''Technology'', technology_keywords),
      (''Finance & Banking'', finance_banking_keywords)]"

definition salary_signals :: "string list" where
  "salary_signals =
     [''salary'', ''payroll'', ''paycheck'', ''direct deposit'', ''wages'',
      ''commission payment'', ''bonus credit'']"

definition category_priority :: "string list" where
  "category_priority =
     [''Internal Transfer'', ''Salary & Income'', ''Finance & Banking'', ''Technology'',
      ''Food & Beverage'', ''Transportation & Logistics'', ''Healthcare'', ''Utilities'',
      ''Entertainment & Media'', ''Retail & Shopping'']"

definition finance_terms :: "string list" where
  "finance_terms =
     [''atm'', ''withdrawal'', ''cash'', ''fee'', ''charge'', ''interest'',
      ''maintenance'', ''remittance'', ''exchange'', ''zelle'', ''venmo'', ''paypal'',
      ''western union'', ''forex'', ''overdraft'', ''tabby'', ''spotii'', ''tamara'']"

definition technology_terms :: "string list" where
  "technology_terms =
     [''subscription'', ''monthly'', ''netflix'', ''spotify'', ''prime'', ''office'',
      ''adobe'', ''google'', ''microsoft'', ''icloud'']"

definition transport_words :: "string list" where
  "transport_words =
     [''taxi'', ''uber'', ''careem'', ''rta'', ''bolt'', ''indrive'', ''yango'']"

definition food_words :: "string list" where
  "food_words =
     [''restaurant'', ''cafe'', ''food'', ''dining'', ''eat'', ''talabat'', ''zomato'',
      ''deliveroo'', ''mrsool'', ''marsool'']"

definition shopping_words :: "string list" where
  "shopping_words =
     [''mall'', ''shop'', ''store'', ''retail'', ''noon'', ''amazon'']"

definition merchant_patterns :: "(string \<times> string) list" where
  \<comment> \<open>the dictionary \<^verbatim>\<open>merchant_patterns\<close>, in insertion order\<close>
  "merchant_patterns =
     [(''careem'', ''Transportation & Logistics''),
      (''talabat'', ''Food & Beverage''),
      (''zomato'', ''Food & Beverage''),
      (''mrsool'', ''Food & Beverage''),
      (''marsool'', ''Food & Beverage''),
      (''netflix'', ''Technology''),
      (''spotify'', ''Technology''),
      (''amazon'', ''Retail & Shopping''),
      (''noon'', ''Retail & Shopping''),
      (''namshi'', ''Retail & Shopping''),
      (''adnoc'', ''Transportation & Logistics''),
      (''enoc'', ''Transportation & Logistics''),
      (''eppco'', ''Transportation & Logistics''),
      (''salik'', ''Transportation & Logistics''),
      (''rta'', ''Transportation & Logistics''),
      (''dewa'', ''Utilities''),
      (''etisalat'', ''Utilities''),
      (''e&'', ''Utilities''),
      (''du telecom'', ''Utilities''),
      (''addc'', ''Utilities''),
      (''sewa'', ''Utilities''),
      (''tabby'', ''Finance & Banking''),
      (''spotii'', ''Finance & Banking''),
      (''tamara'', ''Finance & Banking'')]"

definition taxonomy :: "string list" where
  \<comment> \<open>the list \<^verbatim>\<open>categories\<close> of \<^verbatim>\<open>ai_categorize_transactions\<close>\<close>
  "taxonomy =
     [''Internal Transfer'', ''Salary & Income'', ''Food & Beverage'',
      ''Transportation & Logistics'', ''Retail & Shopping'', ''Healthcare'', ''Utilities'',
      ''Entertainment & Media'', ''Technology'', ''Finance & Banking'',
      ''Travel & Tourism'', ''Professional Services'', ''Real Estate'', ''Education'',
      ''Other'']"

definition ref_suffix_pattern :: regex where
  \<comment> \<open>\<^verbatim>\<open>\s*[-\<emdash>]\s*\w{0,5}\s*$\<close>; the second character of the class, an en dash, lies
      outside ASCII\<close>
  "ref_suffix_pattern = seq [sp0, Chr (OneOf [Lit CHR ''-'']), sp0, Rep Word 0 (Some 5) True, sp0, Eos]"

definition hex_ref_pattern :: regex where
  \<comment> \<open>\<^verbatim>\<open>^[0-9A-F]{8,}$\<close>\<close>
  "hex_ref_pattern = seq [Bos, Rep (OneOf [d09, Range CHR ''A'' CHR ''F'']) 8 None True, Eos]"

definition is_ibft_reference :: "string \<Rightarrow> bool" where
  "is_ibft_reference description =
     (let clean = delete_matches False ref_suffix_pattern (strip description)
      in re_match True hex_ref_pattern clean \<noteq> None)"

definition sq_lower_pattern :: regex where
  \<comment> \<open>\<^verbatim>\<open>^sq\s*\*\s*(.+)\<close>\<close>
  "sq_lower_pattern = seq [Bos, Str ''sq'', sp0, Chr (Lit CHR ''*''), sp0, Group 1 (Rep AnyChar 1 None True)]"

definition categories_get :: "string \<Rightarrow> string list" where
  \<comment> \<open>\<^verbatim>\<open>self.categories.get(category, [])\<close>\<close>
  "categories_get category = (case map_of categories category of Some kws \<Rightarrow> kws | None \<Rightarrow> [])"

definition keyword_returns :: "string \<Rightarrow> string \<Rightarrow> bool" where
  \<comment> \<open>whether a keyword hit of \<open>category\<close> reaches a \<^verbatim>\<open>return category\<close>\<close>
  "keyword_returns category desc_lower =
     (if category = ''Finance & Banking'' then any_in finance_terms desc_lower
      else if category = ''Technology'' then any_in technology_terms desc_lower
      else True)"

fun scan_keywords :: "string \<Rightarrow> string \<Rightarrow> string list \<Rightarrow> string option" where
  "scan_keywords category desc_lower [] = None"
| "scan_keywords category desc_lower (keyword # keywords) =
     (if contains keyword desc_lower \<and> keyword_returns category desc_lower then Some category
      else scan_keywords category desc_lower keywords)"

fun scan_categories :: "string \<Rightarrow> string list \<Rightarrow> string option" where
  "scan_categories desc_lower [] = None"
| "scan_categories desc_lower (category # rest) =
     (case scan_keywords category desc_lower (categories_get category) of
        Some c \<Rightarrow> Some c
      | None \<Rightarrow> scan_categories desc_lower rest)"

fun scan_merchants :: "string \<Rightarrow> (string \<times> string) list \<Rightarrow> string option" where
  "scan_merchants desc_lower [] = None"
| "scan_merchants desc_lower ((merchant, cat) # rest) =
     (if contains merchant desc_lower then Some cat else scan_merchants desc_lower rest)"

definition categorize_rules :: "string \<Rightarrow> string \<Rightarrow> string" where
  \<comment> \<open>\<^verbatim>\<open>categorize_transaction\<close> after the \<^verbatim>\<open>SQ *\<close> case\<close>
  "categorize_rules description desc_lower =
     (if contains ''mobn'' desc_lower \<or> startswith desc_lower ''mobn transfer''
         \<or> is_ibft_reference description then ''Internal Transfer''
      else if any_in salary_signals desc_lower then ''Salary & Income''
      else case scan_categories desc_lower category_priority of
        Some c \<Rightarrow> c
      | None \<Rightarrow>
          if any_in transport_words desc_lower then ''Transportation & Logistics''
          else if any_in food_words desc_lower then ''Food & Beverage''
          else if any_in shopping_words desc_lower then ''Retail & Shopping''
          else case scan_merchants desc_lower merchant_patterns of
            Some c \<Rightarrow> c
          | None \<Rightarrow> ''Other'')"

lemma str_match_sound:
  "str_match ic lit b s = Some (b', s') \<Longrightarrow> \<exists>u. s = u @ s' \<and> b' = rev u @ b \<and> length u = length lit"
proof (induction ic lit b s rule: str_match.induct)
  case (1 ic b s)
  then show ?case by simp
next
  case (2 ic a as b)
  then show ?case by simp
next
  case (3 ic a as b c cs)
  from "3.prems" have hit: "cm ic (Lit a) c" and rest: "str_match ic as (c # b) cs = Some (b', s')"
    by (auto split: if_splits)
  from "3.IH" [OF hit rest] obtain u where "cs = u @ s'" "b' = rev u @ c # b" "length u = length as"
    by blast
  then have "c # cs = (c # u) @ s' \<and> b' = rev (c # u) @ b \<and> length (c # u) = length (a # as)"
    by simp
  then show ?case by blast
qed

lemma rmatch_sound:
  "(b', s', g') \<in> set (rmatch ic r (b, s, g)) \<Longrightarrow> \<exists>u. s = u @ s' \<and> b' = rev u @ b"
proof (induction r arbitrary: b s g b' s' g')
  case (Chr k)
  then show ?case by (auto split: list.splits if_splits)
next
  case (Str lit)
  then have "str_match ic lit b s = Some (b', s')" by (auto split: option.splits)
  then show ?case by (auto dest: str_match_sound)
next
  case (Rep k lo hi greedy)
  then obtain n where "b' = rev (take n s) @ b" "s' = drop n s" by auto
  then have "s = take n s @ s' \<and> b' = rev (take n s) @ b" by simp
  then show ?case by blast
next
  case (Then r1 r2)
  from Then.prems obtain b1 s1 g1 where
    m1: "(b1, s1, g1) \<in> set (rmatch ic r1 (b, s, g))" and m2: "(b', s', g') \<in> set (rmatch ic r2 (b1, s1, g1))"
    by auto
  from Then.IH(1) [OF m1] obtain u where u: "s = u @ s1" "b1 = rev u @ b" by blast
  from Then.IH(2) [OF m2] obtain v where v: "s1 = v @ s'" "b' = rev v @ b1" by blast
  from u v have "s = (u @ v) @ s' \<and> b' = rev (u @ v) @ b" by simp
  then show ?case by blast
next
  case (Or r1 r2)
  then show ?case by auto
next
  case (Opt r)
  then show ?case by auto
next
  case (Group n r)
  then show ?case by auto
next
  case Bos
  then show ?case by (auto split: if_splits)
next
  case Eos
  then show ?case by (auto split: if_splits)
next
  case WordB
  then show ?case by (auto split: if_splits)
qed

lemma rmatch_groups:
  "(b', s', g') \<in> set (rmatch ic r (b, s, g)) \<Longrightarrow> g' n = Some x \<Longrightarrow> g n = Some x \<or> length x \<le> length s"
proof (induction r arbitrary: b s g b' s' g')
  case (Chr k)
  then show ?case by (auto split: list.splits if_splits)
next
  case (Str lit)
  then show ?case by (auto split: option.splits)
next
  case (Rep k lo hi greedy)
  then show ?case by auto
next
  case (Then r1 r2)
  from Then.prems obtain b1 s1 g1 where
    m1: "(b1, s1, g1) \<in> set (rmatch ic r1 (b, s, g))" and m2: "(b', s', g') \<in> set (rmatch ic r2 (b1, s1, g1))"
    by auto
  from rmatch_sound [OF m1] have le: "length s1 \<le> length s" by auto
  from Then.IH(2) [OF m2 Then.prems(2)] have "g1 n = Some x \<or> length x \<le> length s1" .
  with Then.IH(1) [OF m1] le show ?case by auto
next
  case (Or r1 r2)
  from Or.prems(1) have "(b', s', g') \<in> set (rmatch ic r1 (b, s, g)) \<or> (b', s', g') \<in> set (rmatch ic r2 (b, s, g))"
    by simp
  then show ?case using Or.IH Or.prems(2) by blast
next
  case (Opt r)
  from Opt.prems(1) have "(b', s', g') \<in> set (rmatch ic r (b, s, g)) \<or> g' = g"
    by auto
  then show ?case using Opt.IH Opt.prems(2) by blast
next
  case (Group m r)
  from Group.prems obtain g1 where
    m1: "(b', s', g1) \<in> set (rmatch ic r (b, s, g))" and g': "g' = g1(m \<mapsto> rev (take (length b' - length b) b'))"
    by auto
  from rmatch_sound [OF m1] obtain u where u: "s = u @ s'" "b' = rev u @ b" by blast
  show ?case
  proof (cases "n = m")
    case True
    with g' Group.prems(2) u have "x = u" by simp
    with u show ?thesis by simp
  next
    case False
    with g' Group.prems(2) have "g1 n = Some x" by simp
    with Group.IH [OF m1] show ?thesis by simp
  qed
next
  case Bos
  then show ?case by (auto split: if_splits)
next
  case Eos
  then show ?case by (auto split: if_splits)
next
  case WordB
  then show ?case by (auto split: if_splits)
qed

lemma length_strip_le: "length (strip s) \<le> length s"
  unfolding strip_def
  by (metis length_dropWhile_le length_rev order_trans)

lemma sq_group_shorter:
  assumes "re_match False sq_lower_pattern d = Some g"
  shows "length (group g 1) < length d"
proof -
  define rest where "rest = seq [sp0, Chr (Lit CHR ''*''), sp0, Group 1 (Rep AnyChar 1 None True)]"
  have pat: "sq_lower_pattern = Then Bos (Then (Str ''sq'') rest)"
    by (simp add: sq_lower_pattern_def rest_def)
  from assms obtain b' s' where "(b', s', g) \<in> set (rmatch False sq_lower_pattern ([], d, Map.empty))"
    by (auto simp: re_match_def first_match_def split: list.splits)
  then obtain b1 s1 g1 where
    m1: "(b1, s1, g1) \<in> set (rmatch False (Str ''sq'') ([], d, Map.empty))"
    and m2: "(b', s', g) \<in> set (rmatch False rest (b1, s1, g1))"
    unfolding pat by auto
  from m1 have g1: "g1 = Map.empty" and sm: "str_match False ''sq'' [] d = Some (b1, s1)"
    by (auto split: option.splits)
  from str_match_sound [OF sm] obtain u where u: "d = u @ s1" "length u = 2"
    by auto
  show ?thesis
  proof (cases "g 1")
    case None
    with u show ?thesis by (simp add: group_def)
  next
    case (Some x)
    from rmatch_groups [OF m2 Some] g1 have "length x \<le> length s1" by simp
    with Some u show ?thesis by (simp add: group_def)
  qed
qed

function categorize_transaction :: "string \<Rightarrow> string" where
  "categorize_transaction description =
     (let desc_lower = strip (lower description) in
      case re_match False sq_lower_pattern desc_lower of
        Some g \<Rightarrow>
          (let merchant_after_sq = strip (group g 1);
               cat = categorize_transaction merchant_after_sq
           in if cat \<noteq> ''Other'' then cat else ''Retail & Shopping'')
      | None \<Rightarrow> categorize_rules description desc_lower)"
  by pat_completeness auto
termination
proof (relation "measure length")
  show "wf (measure length)" by simp
next
  fix description desc_lower g merchant_after_sq
  assume d: "desc_lower = strip (lower description)"
    and m: "re_match False sq_lower_pattern desc_lower = Some g"
    and a: "merchant_after_sq = strip (group g 1)"
  have "length merchant_after_sq \<le> length (group g 1)"
    unfolding a by (rule length_strip_le)
  also have "\<dots> < length desc_lower"
    using m by (rule sq_group_shorter)
  also have "\<dots> \<le> length description"
    using length_strip_le [of "lower description"] by (simp add: d lower_def)
  finally show "(merchant_after_sq, description) \<in> measure length" by simp
qed

declare categorize_transaction.simps [simp del]

subsection \<open>Date Resolver: \<^verbatim>\<open>detect_date_format\<close>\<close>

definition mdy2_pattern :: regex where
  \<comment> \<open>\<^verbatim>\<open>^(\d{1,2})/(\d{1,2})/(\d{2})$\<close>\<close>
  "mdy2_pattern = seq [Bos, Group 1 (digits 1 (Some 2)), Chr (Lit CHR ''/''),
     Group 2 (digits 1 (Some 2)), Chr (Lit CHR ''/''), Group 3 (digits 2 (Some 2)), Eos]"

definition iso_pattern :: regex where
  \<comment> \<open>\<^verbatim>\<open>^(\d{4})-(\d{1,2})-(\d{1,2})$\<close>\<close>
  "iso_pattern = seq [Bos, Group 1 (digits 4 (Some 4)), Chr (Lit CHR ''-''),
     Group 2 (digits 1 (Some 2)), Chr (Lit CHR ''-''), Group 3 (digits 1 (Some 2)), Eos]"

definition dmy4_pattern :: regex where
  \<comment> \<open>\<^verbatim>\<open>^(\d{1,2})/(\d{1,2})/(\d{4})$\<close>\<close>
  "dmy4_pattern = seq [Bos, Group 1 (digits 1 (Some 2)), Chr (Lit CHR ''/''),
     Group 2 (digits 1 (Some 2)), Chr (Lit CHR ''/''), Group 3 (digits 4 (Some 4)), Eos]"

definition int_of_digits :: "string \<Rightarrow> nat" where
  \<comment> \<open>\<^verbatim>\<open>int(s)\<close> of a string of decimal digits\<close>
  "int_of_digits s = foldl (\<lambda>n c. 10 * n + (of_char c - 48)) 0 s"

definition ymd :: "string \<Rightarrow> string \<Rightarrow> string \<Rightarrow> string" where
  \<comment> \<open>\<^verbatim>\<open>f"{y}-{m.zfill(2)}-{d.zfill(2)}"\<close>\<close>
  "ymd y m d = y @ ''-'' @ zfill 2 m @ ''-'' @ zfill 2 d"

definition detect_date_format :: "datetime \<Rightarrow> cell \<Rightarrow> string \<Rightarrow> string" where
  \<comment> \<open>\<open>now\<close> is what \<^verbatim>\<open>datetime.now()\<close> returns\<close>
  "detect_date_format now date_string currency =
     (case date_string of
        CDateTime d \<Rightarrow> strftime_ymd d
      | _ \<Rightarrow>
        (let date_str = strip (py_str date_string) in
         case re_match False mdy2_pattern date_str of
           Some m \<Rightarrow>
             (let month = group m 1; day = group m 2; year = group m 3;
                  full_year = (if int_of_digits year < 50 then ''20'' @ year else ''19'' @ year)
              in ymd full_year month day)
         | None \<Rightarrow>
        (case re_match False iso_pattern date_str of
           Some m \<Rightarrow> ymd (group m 1) (group m 2) (group m 3)
         | None \<Rightarrow>
        (case re_match False dmy4_pattern date_str of
           Some m \<Rightarrow>
             (let first = int_of_digits (group m 1); second = int_of_digits (group m 2);
                  year = group m 3
              in if first > 12 then ymd year (group m 2) (group m 1)
                 else if second > 12 then ymd year (group m 1) (group m 2)
                 else if currency = ''USD'' then ymd year (group m 1) (group m 2)
                 else ymd year (group m 2) (group m 1))
         | None \<Rightarrow> strftime_ymd now))))"

definition iso_shaped :: "string \<Rightarrow> bool" where
  \<comment> \<open>four digits, a hyphen, two digits, a hyphen, two digits\<close>
  "iso_shaped s = (length s = 10 \<and> list_all is_digit (take 4 s) \<and> s ! 4 = CHR ''-''
     \<and> list_all is_digit (take 2 (drop 5 s)) \<and> s ! 7 = CHR ''-'' \<and> list_all is_digit (drop 8 s))"

definition days_in_month :: "nat \<Rightarrow> nat \<Rightarrow> nat" where
  "days_in_month y m =
     (if m = 2 then (if y mod 4 = 0 \<and> (y mod 100 \<noteq> 0 \<or> y mod 400 = 0) then 29 else 28)
      else if m \<in> {4, 6, 9, 11} then 30 else 31)"

definition is_calendar_date :: "string \<Rightarrow> bool" where
  \<comment> \<open>a string \<^verbatim>\<open>YYYY-MM-DD\<close> that names a day of the calendar\<close>
  "is_calendar_date s =
     (iso_shaped s \<and>
      (let y = int_of_digits (take 4 s); m = int_of_digits (take 2 (drop 5 s));
           d = int_of_digits (drop 8 s)
       in 1 \<le> m \<and> m \<le> 12 \<and> 1 \<le> d \<and> d \<le> days_in_month y m))"

definition plausible_date :: "datetime \<Rightarrow> bool" where
  \<comment> \<open>a datetime with a four-digit year, as a spreadsheet or the clock gives it\<close>
  "plausible_date d = (1000 \<le> year d \<and> year d \<le> 9999 \<and> 1 \<le> month d \<and> month d \<le> 12
     \<and> 1 \<le> day d \<and> day d \<le> 31)"

definition session_now :: datetime where
  "session_now = \<lparr> year = 2026, month = 11, day = 4, hour = 9, minute = 30, second = 0, microsecond = 0 \<rparr>"

subsection \<open>Transaction records and the values of the external classifier\<close>

text \<open>
  What \<^verbatim>\<open>json.loads\<close> returns. The Batch Refiner stores elements of the response in
  the records without looking at them, so \<open>Category\<close> and \<open>Subcategory\<close> hold such a value;
  the Rule Classifier always stores a string (\<open>JStr\<close>).
\<close>

datatype json = JNull | JBool bool | JNum rat | JStr string | JArr "json list" | JObj "(string \<times> json) list"

record transaction =
  Date :: string
  Amount :: rat
  Description :: string
  MerchantName :: string
  Type :: string
  Category :: json
  Subcategory :: json

subsection \<open>Amount Resolver and row extraction: the row loop of \<^verbatim>\<open>process_excel_file\<close>\<close>

fun replace_scan :: "string \<Rightarrow> string \<Rightarrow> nat \<Rightarrow> string \<Rightarrow> string" where
  \<comment> \<open>\<^verbatim>\<open>s.replace(old, new)\<close> for a non-empty \<open>old\<close>; \<open>skip\<close> counts the characters of the
      last occurrence that are still to be passed over\<close>
  "replace_scan old new skip [] = []"
| "replace_scan old new skip (c # cs) =
     (if skip > 0 then replace_scan old new (skip - 1) cs
      else if startswith (c # cs) old then new @ replace_scan old new (length old - 1) cs
      else c # replace_scan old new 0 cs)"

definition replace :: "string \<Rightarrow> string \<Rightarrow> string \<Rightarrow> string" where
  "replace old new s = replace_scan old new 0 s"

text \<open>
  \<^verbatim>\<open>float\<close> is Python's; it is a parameter \<open>pfloat\<close> of the model, \<open>None\<close> when it raises
  \<^verbatim>\<open>ValueError\<close>. An amount is the rational number that the float denotes, on which
  \<^verbatim>\<open>abs\<close>, negation and comparison with zero are exact.
\<close>

type_synonym float_parser = "string \<Rightarrow> rat option"

record columns =
  date_column :: nat
  desc_column :: nat
  type_column :: "nat option"
  debit_column :: nat
  credit_column :: nat
  amount_column :: "nat option"

definition get_or :: "column_map \<Rightarrow> map_key \<Rightarrow> nat \<Rightarrow> nat" where
  \<comment> \<open>\<^verbatim>\<open>column_map.get(key, dflt)\<close>\<close>
  "get_or m k dflt = (case m k of Some c \<Rightarrow> c | None \<Rightarrow> dflt)"

definition columns_of :: "column_map \<Rightarrow> columns" where
  "columns_of m =
     \<lparr> date_column = get_or m date_col 1,
       desc_column = get_or m description_col 2,
       type_column = m type_col,
       debit_column = get_or m debit_col 4,
       credit_column = get_or m credit_col 5,
       amount_column = m amount_col \<rparr>"

definition read_cell :: "worksheet \<Rightarrow> nat \<Rightarrow> nat \<Rightarrow> cell" where
  \<comment> \<open>\<^verbatim>\<open>worksheet.cell(row, col).value if col else None\<close>\<close>
  "read_cell ws row col = (if col \<noteq> 0 then cell_value ws row col else CNone)"

definition read_optional_cell :: "worksheet \<Rightarrow> nat \<Rightarrow> nat option \<Rightarrow> cell" where
  "read_optional_cell ws row col = (case col of Some c \<Rightarrow> read_cell ws row c | None \<Rightarrow> CNone)"

definition date_skip_words :: "string list" where
  "date_skip_words = [''TOTAL'', ''SUMMARY'', ''BALANCE'', ''OPENING'', ''CLOSING'', ''NET'', ''FLOW'']"

definition description_skip_words :: "string list" where
  "description_skip_words = [''TOTAL'', ''SUMMARY'', ''MONTHLY'', ''NET FLOW'', ''NET DEBIT'', ''NET CREDIT'']"

definition is_filled :: "cell \<Rightarrow> bool" where
  \<comment> \<open>\<^verbatim>\<open>c and str(c).strip() and str(c).strip() not in ['', '-', 'None']\<close>\<close>
  "is_filled c = (truthy c \<and> strip (py_str c) \<noteq> [] \<and> strip (py_str c) \<notin> set [[], ''-'', ''None''])"

definition debit_credit_amount :: "float_parser \<Rightarrow> cell \<Rightarrow> cell \<Rightarrow> rat option" where
  \<comment> \<open>the branch "Debit/Credit columns"; the amount stays \<^verbatim>\<open>0\<close> when neither cell is filled\<close>
  "debit_credit_amount pfloat debit_cell credit_cell =
     (if is_filled debit_cell
        then map_option (\<lambda>v. - \<bar>v\<bar>) (pfloat (replace '','' [] (py_str debit_cell)))
      else if is_filled credit_cell
        then map_option (\<lambda>v. \<bar>v\<bar>) (pfloat (replace '','' [] (py_str credit_cell)))
      else Some 0)"

definition amount_col_of :: "columns \<Rightarrow> nat option" where
  \<comment> \<open>the amount column when \<^verbatim>\<open>if amount_col:\<close> holds\<close>
  "amount_col_of cols = (case amount_column cols of Some c \<Rightarrow> if c \<noteq> 0 then Some c else None | None \<Rightarrow> None)"

definition column_amount :: "float_parser \<Rightarrow> worksheet \<Rightarrow> columns \<Rightarrow> nat \<Rightarrow> rat option" where
  \<comment> \<open>the \<^verbatim>\<open>try\<close> block "DYNAMIC AMOUNT EXTRACTION"; \<open>None\<close> is the \<^verbatim>\<open>except ... continue\<close>\<close>
  "column_amount pfloat ws cols row =
     (case amount_col_of cols of
        Some c \<Rightarrow> pfloat (replace '','' [] (str_or (cell_value ws row c) ''0''))
      | None \<Rightarrow>
          debit_credit_amount pfloat (read_cell ws row (debit_column cols))
            (read_cell ws row (credit_column cols)))"

definition negative_types :: "string list" where
  "negative_types = [''withdrawal'', ''debit'', ''dr'', ''debit card purchase'']"

definition positive_types :: "string list" where
  "positive_types = [''deposit'', ''credit'', ''cr'']"

definition apply_type :: "cell \<Rightarrow> rat \<Rightarrow> rat" where
  \<comment> \<open>"FIX 1A: Apply Type column to correct amount sign"\<close>
  "apply_type type_cell amount =
     (if truthy type_cell then
        (let type_val = lower (strip (py_str type_cell)) in
         if type_val \<in> set negative_types then - \<bar>amount\<bar>
         else if type_val \<in> set positive_types then \<bar>amount\<bar>
         else amount)
      else amount)"

definition process_row ::
  "datetime \<Rightarrow> float_parser \<Rightarrow> string \<Rightarrow> worksheet \<Rightarrow> columns \<Rightarrow> nat \<Rightarrow> nat \<Rightarrow> transaction option" where
  \<comment> \<open>the body of the loop over \<open>row\<close>; \<open>n\<close> is \<^verbatim>\<open>len(all_transactions)\<close>, \<open>None\<close> is
      \<^verbatim>\<open>continue\<close>\<close>
  "process_row now pfloat currency ws cols n row =
     (let date_cell = read_cell ws row (date_column cols);
          description_cell = read_cell ws row (desc_column cols);
          type_cell = read_optional_cell ws row (type_column cols)
      in if \<not> truthy date_cell then None
         else if any_in date_skip_words (upper (py_str date_cell)) then None
         else if truthy description_cell
                 \<and> any_in description_skip_words (upper (py_str description_cell)) then None
         else
           (let date_str = detect_date_format now date_cell currency in
            case column_amount pfloat ws cols row of
              None \<Rightarrow> None
            | Some column_value \<Rightarrow>
                (let amount = apply_type type_cell column_value in
                 if amount = 0 then None
                 else
                   (let raw_description =
                          (if truthy description_cell then strip (py_str description_cell)
                           else ''Transaction '' @ str_nat (n + 1));
                        merchant_name = extract_merchant_name raw_description;
                        category = categorize_transaction merchant_name;
                        category = (if category = ''Other''
                                    then categorize_transaction raw_description else category);
                        transaction_type =
                          (if truthy type_cell then strip (py_str type_cell)
                           else if amount < 0 then ''Withdrawal'' else ''Deposit'')
                    in Some \<lparr> Date = date_str, Amount = amount, Description = raw_description,
                              MerchantName = merchant_name, Type = transaction_type,
                              Category = JStr category, Subcategory = JStr category \<rparr>))))"

fun scan_rows ::
  "datetime \<Rightarrow> float_parser \<Rightarrow> string \<Rightarrow> worksheet \<Rightarrow> columns \<Rightarrow> transaction list \<Rightarrow> nat list
     \<Rightarrow> transaction list" where
  \<comment> \<open>the loop over \<open>row\<close>, appending to \<^verbatim>\<open>all_transactions\<close>\<close>
  "scan_rows now pfloat currency ws cols all_transactions [] = all_transactions"
| "scan_rows now pfloat currency ws cols all_transactions (row # rows) =
     (case process_row now pfloat currency ws cols (length all_transactions) row of
        None \<Rightarrow> scan_rows now pfloat currency ws cols all_transactions rows
      | Some transaction \<Rightarrow>
          scan_rows now pfloat currency ws cols (all_transactions @ [transaction]) rows)"

definition process_sheet ::
  "datetime \<Rightarrow> float_parser \<Rightarrow> string \<Rightarrow> worksheet \<Rightarrow> transaction list \<Rightarrow> transaction list" where
  \<comment> \<open>one iteration of the loop over \<^verbatim>\<open>transaction_sheets\<close>\<close>
  "process_sheet now pfloat currency ws all_transactions =
     (let column_map = find_data_headers ws;
          first_row = get_or column_map header_row 1 + 1
      in scan_rows now pfloat currency ws (columns_of column_map) all_transactions
           [first_row ..< max_row ws + 1])"


text \<open>A parser for plain decimal numerals, on which it agrees with \<^verbatim>\<open>float\<close>; used for examples.\<close>

definition plain_decimal :: float_parser where
  "plain_decimal s =
     (let t = strip s;
          neg = (t \<noteq> [] \<and> hd t = CHR ''-'');
          u = (if neg then tl t else t);
          whole = takeWhile is_digit u;
          rest = dropWhile is_digit u;
          frac = (if rest \<noteq> [] \<and> hd rest = CHR ''.'' then tl rest else []);
          ok = (whole \<noteq> [] \<and> list_all is_digit frac \<and> (rest = [] \<or> hd rest = CHR ''.''));
          v = (of_nat (int_of_digits (whole @ frac)) / of_nat (10 ^ length frac) :: rat)
      in if ok then Some (if neg then - v else v) else None)"

subsection \<open>Batch Refiner: \<^verbatim>\<open>ai_categorize_transactions\<close>\<close>

text \<open>
  The external classifier is a parameter \<open>classify\<close>: from the lines of the prompt that
  list the batch it gives the text of the reply, or \<open>None\<close> when the call raises (a
  transport error, a timeout, a reply without content). \<^verbatim>\<open>json.loads\<close> is the parameter
  \<open>loads\<close>, \<open>None\<close> when it raises.
\<close>

type_synonym classifier = "string list \<Rightarrow> string option"
type_synonym json_parser = "string \<Rightarrow> json option"

definition batch_size :: nat where
  "batch_size = 50"

definition describe :: "nat \<Rightarrow> transaction list \<Rightarrow> string list" where
  \<comment> \<open>\<^verbatim>\<open>[f"{idx}. {tx.get('MerchantName') or tx['Description']}" for idx, tx in enumerate(batch, start=i)]\<close>\<close>
  "describe i batch =
     map (\<lambda>(idx, tx). str_nat idx @ ''. '' @ (if MerchantName tx \<noteq> [] then MerchantName tx else Description tx))
       (zip [i ..< i + length batch] batch)"

definition fence :: string where
  "fence = [CHR 0x60, CHR 0x60, CHR 0x60]"

definition clean_response :: "string \<Rightarrow> string" where
  \<comment> \<open>\<^verbatim>\<open>content.strip()\<close> and "Remove markdown if present"\<close>
  "clean_response content =
     (let ai_response = strip content in
      if startswith ai_response (fence @ ''json'')
        then strip (replace fence [] (replace (fence @ ''json'') [] ai_response))
      else if startswith ai_response fence then strip (replace fence [] ai_response)
      else ai_response)"

fun apply_categories :: "json list \<Rightarrow> transaction list \<Rightarrow> transaction list" where
  \<comment> \<open>"Apply AI categories to batch": position \<open>idx\<close> is rewritten when \<^verbatim>\<open>idx < len(ai_categories)\<close>\<close>
  "apply_categories cats [] = []"
| "apply_categories [] (tx # txs) = tx # apply_categories [] txs"
| "apply_categories (c # cs) (tx # txs) =
     tx\<lparr>Category := c, Subcategory := c\<rparr> # apply_categories cs txs"

fun apply_response :: "json \<Rightarrow> transaction list \<Rightarrow> transaction list option" where
  \<comment> \<open>the padding loop and the assignment loop on the parsed reply; \<open>None\<close> when they raise.
      A list is padded with \<^verbatim>\<open>batch[len(ai_categories)].get('Category', 'Other')\<close>; a string has
      no \<^verbatim>\<open>append\<close> and is indexed by character; an object has no \<^verbatim>\<open>append\<close> and no key
      \<^verbatim>\<open>0\<close>; the other values have no \<^verbatim>\<open>len\<close>.\<close>
  "apply_response (JArr xs) batch =
     Some (apply_categories (xs @ map Category (drop (length xs) batch)) batch)"
| "apply_response (JStr s) batch =
     (if length s < length batch then None else Some (apply_categories (map (\<lambda>c. JStr [c]) s) batch))"
| "apply_response (JObj kvs) batch = (if batch = [] then Some [] else None)"
| "apply_response JNull batch = None"
| "apply_response (JBool b) batch = None"
| "apply_response (JNum x) batch = None"

definition refine_batch :: "classifier \<Rightarrow> json_parser \<Rightarrow> nat \<Rightarrow> transaction list \<Rightarrow> transaction list" where
  \<comment> \<open>the inner \<^verbatim>\<open>try\<close> for the batch that starts at \<open>i\<close>, with its \<^verbatim>\<open>except\<close> fallback\<close>
  "refine_batch classify loads i batch =
     (case classify (describe i batch) of
        None \<Rightarrow> batch
      | Some content \<Rightarrow>
          (case loads (clean_response content) of
             None \<Rightarrow> batch
           | Some ai_categories \<Rightarrow>
               (case apply_response ai_categories batch of
                  None \<Rightarrow> batch
                | Some categorized \<Rightarrow> categorized)))"

function refine_from :: "classifier \<Rightarrow> json_parser \<Rightarrow> transaction list \<Rightarrow> nat \<Rightarrow> transaction list" where
  \<comment> \<open>\<^verbatim>\<open>for i in range(0, len(transactions), batch_size)\<close>, from \<open>i\<close> on\<close>
  "refine_from classify loads transactions i =
     (if i < length transactions
      then refine_batch classify loads i (take batch_size (drop i transactions))
             @ refine_from classify loads transactions (i + batch_size)
      else [])"
  by pat_completeness auto
termination
  by (relation "measure (\<lambda>(classify, loads, transactions, i). length transactions - i)")
     (auto simp: batch_size_def)

declare refine_from.simps [simp del]

definition ai_categorize_transactions ::
  "string option \<Rightarrow> classifier \<Rightarrow> json_parser \<Rightarrow> transaction list \<Rightarrow> transaction list" where
  \<comment> \<open>\<open>api_key\<close> is \<^verbatim>\<open>openai.api_key\<close>\<close>
  "ai_categorize_transactions api_key classify loads transactions =
     (if api_key = None \<or> api_key = Some [] \<or> transactions = [] then transactions
      else refine_from classify loads transactions 0)"

(*DEFS-END*)

section \<open>Properties\<close>

subsection \<open>Header Locator\<close>

lemma scan_header_fold_count:
  "snd (fold (scan_header_cell ws row) cols st) =
     snd st + length (filter (\<lambda>col. is_header_hit (header_text ws row col)) cols)"
  by (induction cols arbitrary: st)
     (auto simp: scan_header_cell_def Let_def split: option.splits)

lemma scan_header_fold_map:
  "fst (fold (scan_header_cell ws row) cols st) k =
     (case last_option (filter (\<lambda>col. is_header_hit (header_text ws row col)
                  \<and> column_type (header_text ws row col) = Some k) cols) of
        Some c \<Rightarrow> Some c | None \<Rightarrow> fst st k)"
  by (induction cols arbitrary: st)
     (auto simp: scan_header_cell_def Let_def last_option_def split: option.splits)

lemma scan_header_row_count: "snd (scan_header_row ws row) = header_hits ws row"
  by (simp add: scan_header_row_def header_hits_def scan_header_fold_count)

lemma scan_header_row_map:
  "fst (scan_header_row ws row) k = last_option (role_columns ws row k)"
  by (simp add: scan_header_row_def role_columns_def scan_header_fold_map last_option_def)

lemma find_header_in_skip:
  "header_hits ws a < 3 \<Longrightarrow> find_header_in ws (a # rows) = find_header_in ws rows"
  using scan_header_row_count [of ws a] by (cases "scan_header_row ws a") simp

lemma find_header_in_hit:
  "3 \<le> header_hits ws r \<Longrightarrow>
     find_header_in ws (r # rows) = Some ((fst (scan_header_row ws r))(header_row \<mapsto> r))"
  using scan_header_row_count [of ws r] by (cases "scan_header_row ws r") simp

lemma find_header_in_first:
  assumes "\<forall>r' \<in> set pre. header_hits ws r' < 3" and "3 \<le> header_hits ws r"
  shows "find_header_in ws (pre @ r # post) = Some ((fst (scan_header_row ws r))(header_row \<mapsto> r))"
  using assms
  by (induction pre) (simp_all add: find_header_in_skip find_header_in_hit del: find_header_in.simps)

lemma header_rows_split:
  assumes "r \<in> set (header_rows ws)"
  shows "header_rows ws = [1 ..< r] @ r # [Suc r ..< min 20 (max_row ws + 1)]"
proof -
  from assms have "1 \<le> r" "r < min 20 (max_row ws + 1)" by (auto simp: header_rows_def)
  then have "[1 ..< min 20 (max_row ws + 1)] = [1 ..< r] @ [r ..< min 20 (max_row ws + 1)]"
    using upt_add_eq_append [of 1 r "min 20 (max_row ws + 1) - r"] by simp
  also have "[r ..< min 20 (max_row ws + 1)] = r # [Suc r ..< min 20 (max_row ws + 1)]"
    using \<open>r < min 20 (max_row ws + 1)\<close> by (rule upt_conv_Cons)
  finally show ?thesis
    by (simp add: header_rows_def)
qed

text \<open>
  C9 (as amended). The locator returns the first scanned row with at least three header
  hits. For every role, the column it records for that row is the LAST scanned column
  whose cell is assigned to the role by the \<^verbatim>\<open>if/elif\<close> chain (each later match
  overwrites the earlier one), and no column when the row has none.
\<close>

theorem find_data_headers_last_column:
  assumes "r \<in> set (header_rows ws)"
    and "3 \<le> header_hits ws r"
    and "\<forall>r' \<in> set (header_rows ws). r' < r \<longrightarrow> header_hits ws r' < 3"
  shows "find_data_headers ws header_row = Some r
     \<and> (\<forall>k. k \<noteq> header_row \<longrightarrow> find_data_headers ws k = last_option (role_columns ws r k))"
proof -
  have split: "header_rows ws = [1 ..< r] @ r # [Suc r ..< min 20 (max_row ws + 1)]"
    using assms(1) by (rule header_rows_split)
  have "\<forall>r' \<in> set [1 ..< r]. header_hits ws r' < 3"
    using assms(1,3) by (auto simp: header_rows_def)
  then have "find_header_in ws (header_rows ws) = Some ((fst (scan_header_row ws r))(header_row \<mapsto> r))"
    using assms(2) by (subst split) (rule find_header_in_first)
  then show ?thesis
    by (simp add: find_data_headers_def scan_header_row_map)
qed

theorem find_data_headers_last_column_witness:
  "find_data_headers titled_sheet header_row = Some 2
     \<and> find_data_headers titled_sheet date_col = Some 5
     \<and> find_data_headers titled_sheet description_col = Some 2
     \<and> find_data_headers titled_sheet type_col = None"
proof -
  have rows: "header_rows titled_sheet = [1, 2]" by code_simp
  have h1: "header_hits titled_sheet 1 = 0" by code_simp
  have h2: "header_hits titled_sheet 2 = 5" by code_simp
  have a: "2 \<in> set (header_rows titled_sheet)" by (simp add: rows)
  have b: "3 \<le> header_hits titled_sheet 2" by (simp add: h2)
  have c: "\<forall>r' \<in> set (header_rows titled_sheet). r' < 2 \<longrightarrow> header_hits titled_sheet r' < 3"
    using h1 by (simp add: rows)
  have d: "role_columns titled_sheet 2 date_col = [1, 5]" by code_simp
  have e: "role_columns titled_sheet 2 description_col = [2]" by code_simp
  have f: "role_columns titled_sheet 2 type_col = []" by code_simp
  from find_data_headers_last_column [OF a b c] d e f show ?thesis
    by (simp add: last_option_def)
qed

text \<open>
  C9 (as stated) fails: in a header row \<^verbatim>\<open>Date | Value Date | Description | Amount\<close> the first
  column whose cell contains \<^verbatim>\<open>date\<close> is column 1, and the locator records column 2.
\<close>

theorem find_data_headers_first_column_counterexample:
  "find_data_headers two_date_sheet header_row = Some 1
     \<and> contains ''date'' (header_text two_date_sheet 1 1)
     \<and> find_data_headers two_date_sheet date_col = Some 2"
  by code_simp

subsection \<open>Date Resolver\<close>

lemma digit_facts:
  assumes "is_digit c"
  shows "cm False Digit c" "\<not> cm False (Lit CHR ''/'') c" "\<not> cm False (Lit CHR ''-'') c" "\<not> is_space c"
        "c \<noteq> CHR ''/''" "c \<noteq> CHR ''-''"
  using assms by (auto simp: is_digit_def cm_def is_space_def Let_def)

lemma sep_facts:
  "\<not> cm False Digit CHR ''/''" "cm False (Lit CHR ''/'') CHR ''/''" "\<not> cm False (Lit CHR ''-'') CHR ''/''"
  by (simp_all add: cm_def is_digit_def)

lemma len12: "length a \<in> {1, 2} \<Longrightarrow> (\<exists>a1. a = [a1]) \<or> (\<exists>a1 a2. a = [a1, a2])"
  by (cases a; cases "tl a"; cases "tl (tl a)") auto

lemma len4: "length y = 4 \<Longrightarrow> \<exists>y1 y2 y3 y4. y = [y1, y2, y3, y4]"
  by (cases y; cases "tl y"; cases "tl (tl y)"; cases "tl (tl (tl y))"; cases "tl (tl (tl (tl y)))") auto

lemmas date_eval = re_match_def first_match_def dmy4_pattern_def mdy2_pattern_def iso_pattern_def
  digits_def rep_counts_def Let_def strip_def digit_facts sep_facts group_def

lemma dmy4_matches:
  assumes "list_all is_digit a" "length a \<in> {1, 2}" "list_all is_digit b" "length b \<in> {1, 2}"
    "list_all is_digit y" "length y = 4" and s: "s = a @ ''/'' @ b @ ''/'' @ y"
  shows "re_match False dmy4_pattern s = Some [1 \<mapsto> a, 2 \<mapsto> b, 3 \<mapsto> y]
    \<and> re_match False mdy2_pattern s = None
    \<and> re_match False iso_pattern s = None
    \<and> strip s = s"
proof -
  from len4 [OF assms(6)] obtain y1 y2 y3 y4 where y: "y = [y1, y2, y3, y4]" by blast
  from len12 [OF assms(2)] len12 [OF assms(4)] show ?thesis
  proof (elim disjE exE)
    fix a1 b1 assume "a = [a1]" "b = [b1]"
    with assms y show ?thesis by (simp add: date_eval)
  next
    fix a1 b1 b2 assume "a = [a1]" "b = [b1, b2]"
    with assms y show ?thesis by (simp add: date_eval)
  next
    fix a1 a2 b1 assume "a = [a1, a2]" "b = [b1]"
    with assms y show ?thesis by (simp add: date_eval)
  next
    fix a1 a2 b1 b2 assume "a = [a1, a2]" "b = [b1, b2]"
    with assms y show ?thesis by (simp add: date_eval)
  qed
qed

text \<open>
  C1. For a date string \<^verbatim>\<open>A/B/YYYY\<close> (one or two digits, one or two digits, four digits):
  if \<open>A > 12\<close> the result is \<^verbatim>\<open>YYYY-B-A\<close> whatever the currency; otherwise if \<open>B > 12\<close> it
  is \<^verbatim>\<open>YYYY-A-B\<close>; otherwise the currency decides, \<^verbatim>\<open>USD\<close> giving \<^verbatim>\<open>YYYY-A-B\<close> and any
  other currency \<^verbatim>\<open>YYYY-B-A\<close>; day and month are padded with zeros to two digits.
\<close>

theorem detect_date_format_four_digit_year:
  assumes "list_all is_digit a" "length a \<in> {1, 2}" "list_all is_digit b" "length b \<in> {1, 2}"
    "list_all is_digit y" "length y = 4"
  shows "detect_date_format now (CStr (a @ ''/'' @ b @ ''/'' @ y)) currency =
     (if int_of_digits a > 12 then y @ ''-'' @ zfill 2 b @ ''-'' @ zfill 2 a
      else if int_of_digits b > 12 then y @ ''-'' @ zfill 2 a @ ''-'' @ zfill 2 b
      else if currency = ''USD'' then y @ ''-'' @ zfill 2 a @ ''-'' @ zfill 2 b
      else y @ ''-'' @ zfill 2 b @ ''-'' @ zfill 2 a)"
proof -
  define s where "s = a @ ''/'' @ b @ ''/'' @ y"
  note m = dmy4_matches [OF assms s_def]
  have "detect_date_format now (CStr s) currency =
     (if int_of_digits a > 12 then y @ ''-'' @ zfill 2 b @ ''-'' @ zfill 2 a
      else if int_of_digits b > 12 then y @ ''-'' @ zfill 2 a @ ''-'' @ zfill 2 b
      else if currency = ''USD'' then y @ ''-'' @ zfill 2 a @ ''-'' @ zfill 2 b
      else y @ ''-'' @ zfill 2 b @ ''-'' @ zfill 2 a)"
    unfolding detect_date_format_def by (simp add: m Let_def group_def ymd_def)
  then show ?thesis unfolding s_def .
qed

theorem detect_date_format_four_digit_year_witness:
  "detect_date_format session_now (CStr ''03/04/2024'') ''USD'' = ''2024-03-04''
   \<and> detect_date_format session_now (CStr ''03/04/2024'') ''AED'' = ''2024-04-03''
   \<and> detect_date_format session_now (CStr ''15/1/2025'') ''USD'' = ''2025-01-15''
   \<and> detect_date_format session_now (CStr ''3/25/2025'') ''AED'' = ''2025-03-25''"
proof -
  have d: "list_all is_digit ''03''" "list_all is_digit ''04''" "list_all is_digit ''2024''"
    "list_all is_digit ''15''" "list_all is_digit ''1''" "list_all is_digit ''2025''"
    "list_all is_digit ''3''" "list_all is_digit ''25''"
    by (simp_all add: is_digit_def)
  have l: "length ''03'' \<in> {1, 2::nat}" "length ''04'' \<in> {1, 2::nat}" "length ''2024'' = 4"
    "length ''15'' \<in> {1, 2::nat}" "length ''1'' \<in> {1, 2::nat}" "length ''2025'' = 4"
    "length ''3'' \<in> {1, 2::nat}" "length ''25'' \<in> {1, 2::nat}"
    by simp_all
  have i: "int_of_digits ''03'' = 3" "int_of_digits ''04'' = 4" "int_of_digits ''15'' = 15"
    "int_of_digits ''1'' = 1" "int_of_digits ''3'' = 3" "int_of_digits ''25'' = 25"
    by (simp_all add: int_of_digits_def)
  from detect_date_format_four_digit_year [OF d(1) l(1) d(2) l(2) d(3) l(3), of session_now "''USD''"]
    detect_date_format_four_digit_year [OF d(1) l(1) d(2) l(2) d(3) l(3), of session_now "''AED''"]
    detect_date_format_four_digit_year [OF d(4) l(4) d(5) l(5) d(6) l(6), of session_now "''USD''"]
    detect_date_format_four_digit_year [OF d(7) l(7) d(8) l(8) d(6) l(6), of session_now "''AED''"]
  show ?thesis by (simp add: i zfill_def)
qed

end
